theory Spec2Isabelle
  imports Main
begin

section \<open>The data of server.go\<close>

text \<open>
  Go strings and byte slices are sequences of bytes: both are \<open>char list\<close> here. Go's
  \<open>int\<close> is modelled by \<open>int\<close>: an index, a status code and an error code are only
  compared and stored, never computed with, so no wrap-around can be observed. The offset
  of the write loop is a count of bytes, a \<open>nat\<close>.
\<close>

type_synonym bytes = "char list"

text \<open>A panic of the Go runtime ends the call; otherwise the call returns a value.\<close>

datatype 'a outcome = Panic string | Return 'a

text \<open>\<open>type Error struct { Code int `json:"error"`; Reason string `json:"reason"` }\<close>\<close>

record Error =
  Code :: int
  Reason :: string

text \<open>
  The values of Go's \<open>error\<close> interface that a handler can return: an \<open>Error\<close> held
  by value, a (non-nil) \<open>*Error\<close>, which has the method \<open>Error()\<close> too since the receiver
  is a value, or a value of any other type, given by the text its \<open>Error()\<close> returns. The
  nil interface is \<open>None\<close> of \<open>error option\<close>.
\<close>

datatype error = ErrorValue Error | ErrorPointer Error | Opaque string

text \<open>\<open>func (e Error) Error() string\<close>, and the method of the other error types.\<close>

fun Error_text :: "error \<Rightarrow> string" where
  "Error_text (ErrorValue e) = Reason e"
| "Error_text (ErrorPointer e) = Reason e"
| "Error_text (Opaque msg) = msg"

text \<open>A JSON document, as \<open>encoding/json\<close> builds it from a Go value.\<close>

datatype json =
    JNull
  | JBool bool
  | JNumber int
  | JString string
  | JBase64 bytes
  | JArray "json list"
  | JObject "(string \<times> json) list"

text \<open>
  The values of \<open>interface{}\<close> that a handler can return as its result: the nil
  interface, a \<open>[]byte\<close>, an \<open>Error\<close> or a \<open>*Error\<close>, the empty
  \<open>map[string]interface{}\<close> is \<open>Data (JObject [])\<close>; any other value is given by what
  \<open>encoding/json\<close> makes of it, a document (\<open>Data\<close>) or an encoding error
  (\<open>Unsupported\<close>, a channel or a function for example).
\<close>

datatype any =
    Nil
  | Bytes bytes
  | Envelope Error
  | EnvelopePtr Error
  | Data json
  | Unsupported string

text \<open>
  What \<open>json.Encoder.Encode\<close> makes of a value before it writes. The field names of
  \<open>Error\<close> are its struct tags, in the order of the declaration. A \<open>[]byte\<close> becomes a
  string of base64 text (a nil slice, which is \<open>Bytes []\<close> here as the empty one is, becomes
  \<open>null\<close> in Go; nothing below encodes a byte slice as JSON).
\<close>

fun Marshal :: "any \<Rightarrow> string + json" where
  "Marshal Nil = Inr JNull"
| "Marshal (Bytes bs) = Inr (JBase64 bs)"
| "Marshal (Envelope e) = Inr (JObject [(''error'', JNumber (Code e)), (''reason'', JString (Reason e))])"
| "Marshal (EnvelopePtr e) = Inr (JObject [(''error'', JNumber (Code e)), (''reason'', JString (Reason e))])"
| "Marshal (Data d) = Inr d"
| "Marshal (Unsupported msg) = Inl msg"

text \<open>
  \<open>isByteArray\<close>: the reflected kind is a slice and the type is \<open>[]byte\<close>. For the nil
  interface the kind is Invalid and the conjunction stops there.
\<close>

fun isByteArray :: "any \<Rightarrow> bool" where
  "isByteArray (Bytes bs) = True"
| "isByteArray v = False"

subsection \<open>The request and its context\<close>

text \<open>
  Of \<open>*http.Request\<close> the dispatcher reads the method and the path of the URL, and calls
  \<open>ParseForm\<close>, whose error (if any) is the third field.
\<close>

record Request =
  Method :: string
  URL_Path :: string
  ParseForm :: "string option"

record Context =
  request :: Request
  paths :: "string list"
  resType :: string
  resCode :: int

text \<open>
  \<open>func (c *Context) Path(i int) string\<close>. The guard is on the upper bound only; indexing
  a slice with a negative index panics in Go.
\<close>

definition Path :: "Context \<Rightarrow> int \<Rightarrow> string outcome" where
  "Path c i =
     (if i \<ge> int (length (paths c)) then Return ''''
      else if i < 0 then Panic ''index out of range''
      else Return (paths c ! nat i))"

definition SetResourceType :: "Context \<Rightarrow> string \<Rightarrow> Context" where
  "SetResourceType c t = c\<lparr>resType := t\<rparr>"

definition SetErrorResponseCode :: "Context \<Rightarrow> int \<Rightarrow> Context" where
  "SetErrorResponseCode c code = c\<lparr>resCode := code\<rparr>"

text \<open>
  \<open>type Handler func(*Context) (interface{}, error)\<close>: a handler may change the context it
  is given, and returns a result and an error. A nil function is \<open>None\<close>.
\<close>

type_synonym handler_fn = "Context \<Rightarrow> Context \<times> any \<times> error option"

type_synonym Handler = "handler_fn option"

subsection \<open>The response writer and the log\<close>

text \<open>
  What one call of \<open>Write\<close> on the response writer does with the bytes it is given: it
  takes them all, or it takes the first \<open>k\<close> at most and reports no error (a partial
  write), or it takes the first \<open>k\<close> at most and reports an error.
\<close>

datatype write_result = Complete | Short nat | Fails nat string

text \<open>
  What has been written into the body of the response: raw bytes, by \<open>Write\<close>; the
  rendering of a JSON document with the line feed that ends it, by
  \<open>json.Encoder.Encode\<close>; the line that \<open>http.Error\<close> prints for a message, that is
  the message and the line feed that ends it; or the first bytes only of one of the latter
  two.
\<close>

datatype entity = Octets bytes | Document json | Text string | Cut nat entity

text \<open>A call of \<open>log.Printf\<close>: the format and its arguments.\<close>

datatype arg = S string | D int

datatype log_line = Printf string "arg list"

text \<open>
  One exchange, as \<open>serveHTTP\<close> sees it through \<open>w\<close> and the process log: the header
  map of the response, the status code once it is sent (the first \<open>Write\<close> sends 200
  when \<open>WriteHeader\<close> has not been called, and a later \<open>WriteHeader\<close> changes nothing), the
  body written so far, the behaviour of the connection at the first, second, ... call and the
  number of calls made, and the log.
\<close>

record exchange =
  Header :: "string \<rightharpoonup> string"
  status :: "int option"
  body :: "entity list"
  conn :: "nat \<Rightarrow> write_result"
  writes :: nat
  log :: "log_line list"

definition Header_Set :: "exchange \<Rightarrow> string \<Rightarrow> string \<Rightarrow> exchange" where
  "Header_Set w k v = w\<lparr>Header := (Header w)(k \<mapsto> v)\<rparr>"

definition WriteHeader :: "exchange \<Rightarrow> int \<Rightarrow> exchange" where
  "WriteHeader w code = (case status w of None \<Rightarrow> w\<lparr>status := Some code\<rparr> | Some c \<Rightarrow> w)"

fun taken :: "write_result \<Rightarrow> nat \<Rightarrow> nat" where
  "taken Complete len = len"
| "taken (Short k) len = min k len"
| "taken (Fails k msg) len = min k len"

fun failure :: "write_result \<Rightarrow> string option" where
  "failure (Fails k msg) = Some msg"
| "failure r = None"

text \<open>\<open>n, err := w.Write(p)\<close> for a byte slice \<open>p\<close>.\<close>

definition Write :: "exchange \<Rightarrow> bytes \<Rightarrow> exchange \<times> nat \<times> string option" where
  "Write w p =
     (let r = conn w (writes w);
          n = taken r (length p);
          w' = (WriteHeader w 200)\<lparr>body := body w @ [Octets (take n p)], writes := Suc (writes w)\<rparr>
      in (w', n, failure r))"

text \<open>
  The single \<open>Write\<close> by which the library sends a document or an error line; the callers
  look at the error only.
\<close>

fun part :: "write_result \<Rightarrow> entity \<Rightarrow> entity" where
  "part Complete e = e"
| "part (Short k) e = Cut k e"
| "part (Fails k msg) e = Cut k e"

definition emit :: "exchange \<Rightarrow> entity \<Rightarrow> exchange \<times> string option" where
  "emit w e =
     (let r = conn w (writes w);
          w' = (WriteHeader w 200)\<lparr>body := body w @ [part r e], writes := Suc (writes w)\<rparr>
      in (w', failure r))"

text \<open>
  \<open>http.Error(w, msg, code)\<close> replies with the message as plain text and the status code:
  it sets the content type, sends the status and prints the message, ignoring the result
  of that write.
\<close>

definition http_Error :: "exchange \<Rightarrow> string \<Rightarrow> int \<Rightarrow> exchange" where
  "http_Error w msg code =
     (let w1 = w\<lparr>Header := (Header w)(''Content-Length'' := None)\<rparr>;
          w2 = Header_Set w1 ''Content-Type'' ''text/plain; charset=utf-8'';
          w3 = Header_Set w2 ''X-Content-Type-Options'' ''nosniff'';
          w4 = WriteHeader w3 code
      in fst (emit w4 (Text msg)))"

text \<open>\<open>Context.Warningf\<close> and \<open>Context.Errorf\<close> both are \<open>log.Printf\<close>.\<close>

definition Warningf :: "exchange \<Rightarrow> string \<Rightarrow> arg list \<Rightarrow> exchange" where
  "Warningf w format v = w\<lparr>log := log w @ [Printf format v]\<rparr>"

definition Errorf :: "exchange \<Rightarrow> string \<Rightarrow> arg list \<Rightarrow> exchange" where
  "Errorf w format v = w\<lparr>log := log w @ [Printf format v]\<rparr>"

section \<open>The dispatcher\<close>

record Server =
  Prefix :: string
  registered :: bool
  handlers :: "(string \<rightharpoonup> Handler) option"

text \<open>\<open>s.handlers[resource]\<close>: reading a nil map, or a key that is absent, gives nil.\<close>

definition lookup :: "Server \<Rightarrow> string \<Rightarrow> Handler" where
  "lookup s resource =
     (case handlers s of
        None \<Rightarrow> None
      | Some m \<Rightarrow> (case m resource of None \<Rightarrow> None | Some h \<Rightarrow> h))"

text \<open>\<open>strings.Split(s, sep)\<close> for a separator of one byte: never the empty list.\<close>

fun Split :: "string \<Rightarrow> char \<Rightarrow> string list" where
  "Split [] sep = [[]]"
| "Split (c # cs) sep =
     (if c = sep then [] # Split cs sep
      else (case Split cs sep of [] \<Rightarrow> [[c]] | x # xs \<Rightarrow> (c # x) # xs))"

text \<open>
  Lines 161 to 170, the loop that writes a byte slice. Every round hands the whole slice
  \<open>res.([]byte)\<close> to \<open>Write\<close> and adds the count that comes back to \<open>off\<close>. A connection
  that keeps taking nothing keeps the loop running: then the value is \<open>None\<close>.
\<close>

partial_function (option) write_loop :: "exchange \<Rightarrow> bytes \<Rightarrow> nat \<Rightarrow> exchange option" where
  "write_loop w bs off =
     (if off < length bs then
        (case Write w bs of
           (w', n, Some e) \<Rightarrow>
             Some (http_Error (Errorf w' ''Failed to write byttes: %s'' [S e]) e 500)
         | (w', n, None) \<Rightarrow> write_loop w' bs (off + n))
      else Some w)"

declare write_loop.simps [code]

text \<open>
  Lines 143 to 171: the content type is set, then the result is encoded as JSON or written
  as bytes. The type assertion \<open>res.([]byte)\<close> panics on any other type.
\<close>

definition encode :: "exchange \<Rightarrow> Context \<Rightarrow> any \<Rightarrow> exchange outcome option" where
  "encode w ctx res =
     (let w1 = Header_Set w ''Content-Type'' (resType ctx) in
      if resType ctx = ''application/json'' then
        (let res' = (if res = Nil then Data (JObject []) else res) in
         case Marshal res' of
           Inl e \<Rightarrow> Some (Return (http_Error w1 e 500))
         | Inr d \<Rightarrow>
             (case emit w1 (Document d) of
                (w2, Some e) \<Rightarrow> Some (Return (http_Error w2 e 500))
              | (w2, None) \<Rightarrow> Some (Return w2)))
      else if isByteArray res = False then
        Some (Return (http_Error (Errorf w1 ''Resource is not byte array.'' []) '''' 500))
      else
        (case res of
           Bytes bs \<Rightarrow> map_option Return (write_loop w1 bs 0)
         | _ \<Rightarrow> Some (Panic ''interface conversion'')))"

text \<open>
  Lines 128 to 142: what is done with the error of the handler. An \<open>Error\<close> held by value
  takes the place of the result; any other error is answered at once.
\<close>

definition respond ::
  "exchange \<Rightarrow> Request \<Rightarrow> Context \<Rightarrow> any \<Rightarrow> error option \<Rightarrow> exchange outcome option" where
  "respond w r ctx res err =
     (case err of
        None \<Rightarrow> encode w ctx res
      | Some (ErrorValue e) \<Rightarrow>
          encode (Warningf w ''%s %s restful error: %d %s''
                    [S (Method r), S (URL_Path r), D (Code e), S (Reason e)])
                 ctx (Envelope e)
      | Some other \<Rightarrow>
          (let w1 = Warningf w ''%s %s error: %s''
                      [S (Method r), S (URL_Path r), S (Error_text other)];
               code = (if resCode ctx \<noteq> - 1 then resCode ctx else 500)
           in Some (Return (http_Error w1 (Error_text other) code))))"

text \<open>Line 125: the context that the handler is given.\<close>

definition new_Context :: "Request \<Rightarrow> string list \<Rightarrow> Context" where
  "new_Context r splits =
     \<lparr>request = r, paths = splits, resType = ''application/json'', resCode = - 1\<rparr>"

text \<open>Lines 105 to 108: the four headers that every response carries.\<close>

definition prelude :: "exchange \<Rightarrow> exchange" where
  "prelude w =
     (let w1 = Header_Set w ''Access-Control-Allow-Origin'' ''*'';
          w2 = Header_Set w1 ''Access-Control-Allow-Methods'' ''GET, POST, PUT, DELETE, OPTIONS'';
          w3 = Header_Set w2 ''Access-Control-Allow-Headers'' ''Content-Type, Accept''
      in Header_Set w3 ''X-Content-Type-Options'' ''nosniff'')"

text \<open>Lines 112 and 113: the path behind the prefix, split at every slash.\<close>

definition segments :: "Server \<Rightarrow> Request \<Rightarrow> string list" where
  "segments s r = Split (drop (length (Prefix s)) (URL_Path r)) (CHR ''/'')"

text \<open>
  \<open>func (s *Server) serveHTTP(w http.ResponseWriter, r *http.Request)\<close>. Slicing the path
  panics when the path is shorter than the prefix. Draining the rest of the request body
  after the handler has returned (line 127) changes nothing in the response.
\<close>

definition serveHTTP :: "Server \<Rightarrow> exchange \<Rightarrow> Request \<Rightarrow> exchange outcome option" where
  "serveHTTP s w r =
     (let w0 = prelude w in
      if Method r = ''OPTIONS'' then Some (Return w0)
      else if length (URL_Path r) < length (Prefix s) then
        Some (Panic ''slice bounds out of range'')
      else
        (let splits = segments s r in
         case splits of
           [] \<Rightarrow> Some (Panic ''index out of range'')
         | resource # rest \<Rightarrow>
             (case lookup s resource of
                None \<Rightarrow>
                  Some (Return (http_Error w0
                    (''No such resource '' @ [CHR 0x27] @ resource @ [CHR 0x27]) 404))
              | Some handler \<Rightarrow>
                  (case ParseForm r of
                     Some e \<Rightarrow> Some (Return (http_Error w0 e 500))
                   | None \<Rightarrow>
                       (case handler (new_Context r splits) of
                          (ctx, res, err) \<Rightarrow> respond w0 r ctx res err)))))"

subsection \<open>Registration\<close>

text \<open>
  \<open>func (s *Server) HandleFunc(resource string, handler Handler)\<close>. The second component
  is the list of the patterns handed to \<open>http.HandleFunc\<close> so far, each with the method
  value \<open>s.serveHTTP\<close>.
\<close>

fun HandleFunc :: "Server \<times> string list \<Rightarrow> string \<Rightarrow> Handler \<Rightarrow> Server \<times> string list" where
  "HandleFunc (s, mux) resource handler =
     (let (s1, mux1) = (if \<not> registered s then (s\<lparr>registered := True\<rparr>, mux @ [Prefix s])
                        else (s, mux));
          m = (case handlers s1 of None \<Rightarrow> Map.empty | Some m \<Rightarrow> m)
      in (s1\<lparr>handlers := Some (m(resource \<mapsto> handler))\<rparr>, mux1))"

text \<open>A run of calls of \<open>HandleFunc\<close>, in order.\<close>

fun HandleFuncs :: "Server \<times> string list \<Rightarrow> (string \<times> Handler) list \<Rightarrow> Server \<times> string list" where
  "HandleFuncs sm [] = sm"
| "HandleFuncs sm ((resource, handler) # calls) = HandleFuncs (HandleFunc sm resource handler) calls"

subsection \<open>The setting of the theorems\<close>

text \<open>
  The response writer that \<open>net/http\<close> hands to \<open>serveHTTP\<close>: nothing set, nothing sent
  yet, on a connection that behaves as \<open>c\<close>.
\<close>

definition fresh :: "(nat \<Rightarrow> write_result) \<Rightarrow> exchange" where
  "fresh c = \<lparr>Header = Map.empty, status = None, body = [], conn = c, writes = 0, log = []\<rparr>"

text \<open>
  The request \<open>r\<close> reaches the handler \<open>h\<close>: it is no OPTIONS request, its path is at
  least as long as the prefix, its first segment is registered with \<open>h\<close>, and its form
  parses.
\<close>

definition reaches :: "Server \<Rightarrow> Request \<Rightarrow> handler_fn \<Rightarrow> bool" where
  "reaches s r h =
     (Method r \<noteq> ''OPTIONS'' \<and> length (Prefix s) \<le> length (URL_Path r) \<and>
      lookup s (hd (segments s r)) = Some h \<and> ParseForm r = None)"

text \<open>The type switch of line 130: is the error an \<open>Error\<close> held by value?\<close>

fun structured :: "error \<Rightarrow> bool" where
  "structured (ErrorValue e) = True"
| "structured (ErrorPointer e) = False"
| "structured (Opaque msg) = False"

text \<open>
  What the client gets once \<open>serveHTTP\<close> has returned: the status code (200 when the
  handler has sent none), the content type and the body.
\<close>

definition seen :: "exchange \<Rightarrow> int \<times> string option \<times> entity list" where
  "seen w = (case status w of None \<Rightarrow> 200 | Some code \<Rightarrow> code, Header w ''Content-Type'', body w)"

definition reply :: "exchange outcome option \<Rightarrow> (int \<times> string option \<times> entity list) outcome option" where
  "reply x = map_option (map_outcome seen) x"

subsection \<open>A server to run the dispatcher on\<close>

definition hello :: handler_fn where
  "hello c = (SetResourceType c ''text/plain'', Bytes ''hello'', None)"

definition refuse :: handler_fn where
  "refuse c = (c, Nil, Some (ErrorValue \<lparr>Code = 42, Reason = ''bad''\<rparr>))"

definition refuse_plain :: handler_fn where
  "refuse_plain c =
     (SetResourceType c ''text/plain'', Nil, Some (ErrorValue \<lparr>Code = 42, Reason = ''bad''\<rparr>))"

definition refuse_ptr :: handler_fn where
  "refuse_ptr c = (c, Nil, Some (ErrorPointer \<lparr>Code = 42, Reason = ''bad''\<rparr>))"

definition nothing :: handler_fn where
  "nothing c = (c, Nil, None)"

definition nothing_plain :: handler_fn where
  "nothing_plain c = (SetResourceType c ''text/plain'', Nil, None)"

definition teapot :: handler_fn where
  "teapot c = (SetErrorResponseCode c 418, Nil, Some (Opaque ''short and stout''))"

definition unset :: handler_fn where
  "unset c = (SetErrorResponseCode c (- 1), Nil, Some (Opaque ''boom''))"

definition registrations :: "(string \<times> Handler) list" where
  "registrations =
     [(''hello'', Some nothing), (''refuse'', Some refuse), (''plain'', Some refuse_plain),
      (''ptr'', Some refuse_ptr), (''nothing'', Some nothing), (''none'', Some nothing_plain),
      (''teapot'', Some teapot), (''unset'', Some unset), (''hello'', Some hello)]"

definition api :: Server where
  "api = fst (HandleFuncs (\<lparr>Prefix = ''/api/'', registered = False, handlers = None\<rparr>, []) registrations)"

definition GET :: "string \<Rightarrow> Request" where
  "GET p = \<lparr>Method = ''GET'', URL_Path = p, ParseForm = None\<rparr>"

section \<open>Lemmas on the dispatcher\<close>

lemma Split_not_Nil: "Split xs sep \<noteq> []"
  by (induction xs) (auto split: list.splits)

lemma prelude_fields:
  "status (prelude w) = status w" "body (prelude w) = body w" "conn (prelude w) = conn w"
  "writes (prelude w) = writes w" "log (prelude w) = log w"
  by (simp_all add: prelude_def Header_Set_def Let_def)

lemma serveHTTP_reaches:
  assumes "reaches s r h" and "h (new_Context r (segments s r)) = (ctx, res, err)"
  shows "serveHTTP s w r = respond (prelude w) r ctx res err"
proof -
  obtain resource rest where sp: "segments s r = resource # rest"
    using Split_not_Nil [of "drop (length (Prefix s)) (URL_Path r)" "CHR ''/''"]
    by (cases "segments s r") (auto simp: segments_def)
  with assms show ?thesis
    by (simp add: serveHTTP_def reaches_def Let_def)
qed

lemma seen_http_Error:
  assumes "status w = None" and "conn w (writes w) = Complete"
  shows "seen (http_Error w msg code) = (code, Some ''text/plain; charset=utf-8'', body w @ [Text msg])"
  using assms
  by (simp add: seen_def http_Error_def emit_def WriteHeader_def Header_Set_def Let_def)

lemma Warningf_fields:
  "status (Warningf w f v) = status w" "body (Warningf w f v) = body w" "conn (Warningf w f v) = conn w"
  "writes (Warningf w f v) = writes w" "Header (Warningf w f v) = Header w"
  by (simp_all add: Warningf_def)

lemma Errorf_fields:
  "status (Errorf w f v) = status w" "body (Errorf w f v) = body w" "conn (Errorf w f v) = conn w"
  "writes (Errorf w f v) = writes w" "Header (Errorf w f v) = Header w"
  by (simp_all add: Errorf_def)

lemma Header_Set_fields:
  "status (Header_Set w k v) = status w" "body (Header_Set w k v) = body w" "conn (Header_Set w k v) = conn w"
  "writes (Header_Set w k v) = writes w" "Header (Header_Set w k v) k = Some v"
  by (simp_all add: Header_Set_def)

lemma fresh_fields:
  "status (fresh c) = None" "body (fresh c) = []" "conn (fresh c) = c" "writes (fresh c) = 0"
  by (simp_all add: fresh_def)

lemma respond_opaque:
  assumes "\<not> structured err" "status w = None" "conn w (writes w) = Complete"
  shows "reply (respond w r ctx res (Some err)) =
    Some (Return (if resCode ctx \<noteq> - 1 then resCode ctx else 500,
                  Some ''text/plain; charset=utf-8'', body w @ [Text (Error_text err)]))"
  using assms
  by (cases err) (simp_all add: respond_def reply_def Let_def seen_http_Error Warningf_fields)

lemma encode_json:
  assumes "resType ctx = ''application/json''" "Marshal (if res = Nil then Data (JObject []) else res) = Inr d"
    "status w = None" "conn w (writes w) = Complete"
  shows "reply (encode w ctx res) = Some (Return (200, Some ''application/json'', body w @ [Document d]))"
  using assms
  by (simp add: encode_def reply_def Let_def emit_def seen_def WriteHeader_def Header_Set_def)

lemma encode_not_bytes:
  assumes "resType ctx \<noteq> ''application/json''" "\<not> isByteArray res"
    "status w = None" "conn w (writes w) = Complete"
  shows "reply (encode w ctx res) = Some (Return (500, Some ''text/plain; charset=utf-8'', body w @ [Text '''']))"
  using assms
  by (simp add: encode_def reply_def Let_def seen_http_Error Errorf_fields Header_Set_fields)

lemma respond_structured:
  "respond w r ctx res (Some (ErrorValue e)) =
     encode (Warningf w ''%s %s restful error: %d %s''
               [S (Method r), S (URL_Path r), D (Code e), S (Reason e)]) ctx (Envelope e)"
  by (simp add: respond_def)

lemma write_loop_done: "length bs \<le> off \<Longrightarrow> write_loop w bs off = Some w"
  by (subst write_loop.simps) simp

lemma write_loop_step:
  "off < length bs \<Longrightarrow> conn w (writes w) = Short k \<Longrightarrow>
   write_loop w bs off = write_loop (fst (Write w bs)) bs (off + min k (length bs))"
  by (subst write_loop.simps) (simp add: Write_def Let_def)

lemma write_loop_Complete:
  assumes "conn w (writes w) = Complete" "status w = None"
  shows "write_loop w bs 0 =
    Some (if bs = [] then w
          else w\<lparr>status := Some 200, body := body w @ [Octets bs], writes := Suc (writes w)\<rparr>)"
proof (cases "bs = []")
  case True
  then show ?thesis by (simp add: write_loop_done)
next
  case False
  then have "write_loop w bs 0 = write_loop (fst (Write w bs)) bs (length bs)"
    using assms by (subst write_loop.simps) (simp add: Write_def Let_def)
  then show ?thesis
    using False assms by (simp add: write_loop_done Write_def Let_def WriteHeader_def)
qed

lemma encode_bytes_Complete:
  assumes "resType ctx \<noteq> ''application/json''" "status w = None" "conn w (writes w) = Complete"
  shows "reply (encode w ctx (Bytes bs)) =
    Some (Return (200, Some (resType ctx), body w @ (if bs = [] then [] else [Octets bs])))"
  using assms
  by (simp add: encode_def reply_def Let_def write_loop_Complete Header_Set_def seen_def)

lemma bytes_verbatim:
  assumes "reaches s r h"
    and "h (new_Context r (segments s r)) = (ctx, Bytes bs, None)"
    and "resType ctx \<noteq> ''application/json''"
    and "c 0 = Complete"
  shows "reply (serveHTTP s (fresh c) r) =
    Some (Return (200, Some (resType ctx), if bs = [] then [] else [Octets bs]))"
  using assms(3,4)
  by (simp add: serveHTTP_reaches [OF assms(1,2)] respond_def encode_bytes_Complete
      prelude_fields fresh_fields)

lemma not_bytes_500:
  assumes "reaches s r h"
    and "h (new_Context r (segments s r)) = (ctx, res, None)"
    and "resType ctx \<noteq> ''application/json''"
    and "\<not> isByteArray res"
    and "c 0 = Complete"
  shows "reply (serveHTTP s (fresh c) r) =
    Some (Return (500, Some ''text/plain; charset=utf-8'', [Text '''']))"
  using assms(3,4,5)
  by (simp add: serveHTTP_reaches [OF assms(1,2)] respond_def encode_not_bytes
      prelude_fields fresh_fields)

lemma write_loop_stuck_aux:
  assumes "write_loop w bs off = Some w'" and "\<forall>k. conn w k = Short 0"
  shows "length bs \<le> off"
  using assms
proof (induction rule: write_loop.raw_induct [rotated, consumes 1])
  case (1 loop w bs off w')
  show ?case
  proof (rule ccontr)
    assume "\<not> length bs \<le> off"
    then have lt: "off < length bs" by simp
    have c: "conn w (writes w) = Short 0" using "1.prems" by simp
    let ?w = "fst (Write w bs)"
    have "loop ?w bs off = Some w'"
      using "1.hyps" lt c by (simp add: Write_def Let_def)
    moreover have "\<forall>k. conn ?w k = Short 0"
      using "1.prems" by (simp add: Write_def Let_def WriteHeader_def split: option.splits)
    ultimately have "length bs \<le> off" by (rule "1.IH")
    with lt show False by simp
  qed
qed

lemma write_loop_stuck:
  "off < length bs \<Longrightarrow> \<forall>k. conn w k = Short 0 \<Longrightarrow> write_loop w bs off = None"
  using write_loop_stuck_aux [of w bs off] by (cases "write_loop w bs off") auto

subsection \<open>Lemmas on registration\<close>







declare HandleFunc.simps [simp del]

subsection \<open>The example server\<close>

lemma api_handlers:
  "lookup api ''hello'' = Some hello" "lookup api ''refuse'' = Some refuse"
  "lookup api ''plain'' = Some refuse_plain" "lookup api ''ptr'' = Some refuse_ptr"
  "lookup api ''nothing'' = Some nothing" "lookup api ''none'' = Some nothing_plain"
  "lookup api ''teapot'' = Some teapot" "lookup api ''unset'' = Some unset"
  "Prefix api = ''/api/''"
  by (simp_all add: api_def registrations_def lookup_def HandleFunc.simps)

lemma reaches_api:
  "reaches api (GET ''/api/hello'') hello" 
  "reaches api (GET ''/api/refuse'') refuse" 
  "reaches api (GET ''/api/plain'') refuse_plain" 
  "reaches api (GET ''/api/ptr'') refuse_ptr" 
  "reaches api (GET ''/api/nothing'') nothing" 
  "reaches api (GET ''/api/none'') nothing_plain" 
  "reaches api (GET ''/api/teapot/1'') teapot" 
  "reaches api (GET ''/api/unset'') unset" 
  by (simp_all add: reaches_def GET_def segments_def api_handlers)

lemma no_reply_when_nothing_is_taken:
  "serveHTTP api (fresh (\<lambda>k. Short 0)) (GET ''/api/hello'') = None"
  by (simp add: serveHTTP_reaches [OF reaches_api(1), of _ "Bytes ''hello''" None]
      hello_def respond_def encode_def SetResourceType_def new_Context_def Let_def
      write_loop_stuck prelude_fields fresh_fields Header_Set_fields)

lemma Path_from_zero:
  "0 \<le> i \<Longrightarrow> Path c i = Return (if nat i < length (paths c) then paths c ! nat i else '''')"
  by (auto simp: Path_def)

section \<open>The claims\<close>

text \<open>
  Claim C1, at the input where it fails. The handler \<open>refuse_plain\<close> sets the resource type
  \<open>text/plain\<close> and returns the \<open>Error\<close> of code 42 and reason \<open>bad\<close>. The error
  takes the place of the result, the result is no byte slice, and the reply is the status
  500 with the empty message: the envelope does not reach the client.
\<close>

theorem envelope_lost_when_not_json:
  "reply (serveHTTP api (fresh (\<lambda>k. Complete)) (GET ''/api/plain'')) =
     Some (Return (500, Some ''text/plain; charset=utf-8'', [Text '''']))"
  by (simp add: serveHTTP_reaches [OF reaches_api(3), of _ Nil
        "Some (ErrorValue \<lparr>Code = 42, Reason = ''bad''\<rparr>)"]
      refuse_plain_def respond_structured encode_not_bytes SetResourceType_def new_Context_def
      prelude_fields fresh_fields Warningf_fields)

text \<open>
  Claim C2, at the input where it fails. The handler \<open>hello\<close> sets the resource type
  \<open>text/plain\<close> and returns the five bytes \<open>hello\<close>; the connection takes three bytes
  at most in each call and reports no error. The first round writes \<open>hel\<close> and counts 3,
  the second round hands over the whole slice again, writes \<open>hel\<close> again and counts 6,
  and the loop ends: the body is \<open>helhel\<close>, not \<open>hello\<close>.
\<close>

theorem partial_write_repeats_the_start:
  "reply (serveHTTP api (fresh (\<lambda>k. Short 3)) (GET ''/api/hello'')) =
     Some (Return (200, Some ''text/plain'', [Octets ''hel'', Octets ''hel'']))"
  by (simp add: serveHTTP_reaches [OF reaches_api(1), of _ "Bytes ''hello''" None]
      hello_def respond_def encode_def SetResourceType_def new_Context_def
      write_loop_step write_loop_done Write_def WriteHeader_def Let_def reply_def seen_def
      prelude_fields fresh_fields Header_Set_fields)

text \<open>
  Claim C3, at the input where it fails. \<open>Path\<close> guards the upper bound only: at the
  index \<open>-1\<close> it does not return the empty string, it panics.
\<close>

theorem Path_negative_index:
  "Path (new_Context (GET ''/api/hello'') [''hello'']) (- 1) = Panic ''index out of range''"
  by (simp add: Path_def new_Context_def)





text \<open>
  Claim C6. With the resource type \<open>application/json\<close>, a handler that returns a nil
  result and a nil error gets the reply whose body is the empty JSON object.
\<close>

theorem nil_result_json_body:
  assumes "reaches s r h"
    and "h (new_Context r (segments s r)) = (ctx, Nil, None)"
    and "resType ctx = ''application/json''"
    and "c 0 = Complete"
  shows "reply (serveHTTP s (fresh c) r) =
    Some (Return (200, Some ''application/json'', [Document (JObject [])]))"
  using assms(3,4)
  by (simp add: serveHTTP_reaches [OF assms(1,2)] respond_def encode_json
      prelude_fields fresh_fields)

theorem nil_result_json_body_witness:
  "reaches api (GET ''/api/nothing'') nothing \<and>
   reply (serveHTTP api (fresh (\<lambda>k. Complete)) (GET ''/api/nothing'')) =
     Some (Return (200, Some ''application/json'', [Document (JObject [])]))"
  using nil_result_json_body [of api "GET ''/api/nothing''" nothing
      "new_Context (GET ''/api/nothing'') (segments api (GET ''/api/nothing''))" "\<lambda>k. Complete"]
  by (simp add: reaches_api nothing_def new_Context_def)







text \<open>
  Claim C10. Setting the error response code to \<open>-1\<close> leaves a new context as it is, and
  a handler that sets \<open>-1\<close> and returns an error that is not an \<open>Error\<close> held by value
  gets the status 500.
\<close>

theorem minus_one_is_unset:
  assumes "reaches s r h"
    and "h (new_Context r (segments s r)) = (SetErrorResponseCode ctx (- 1), res, Some err)"
    and "\<not> structured err"
    and "c 0 = Complete"
  shows "SetErrorResponseCode (new_Context r (segments s r)) (- 1) = new_Context r (segments s r) \<and>
    reply (serveHTTP s (fresh c) r) =
      Some (Return (500, Some ''text/plain; charset=utf-8'', [Text (Error_text err)]))"
  using assms(3,4)
  by (simp add: serveHTTP_reaches [OF assms(1,2)] respond_opaque prelude_fields fresh_fields
      SetErrorResponseCode_def new_Context_def)

theorem minus_one_is_unset_witness:
  "reaches api (GET ''/api/unset'') unset \<and>
   reply (serveHTTP api (fresh (\<lambda>k. Complete)) (GET ''/api/unset'')) =
     Some (Return (500, Some ''text/plain; charset=utf-8'', [Text ''boom'']))"
  using minus_one_is_unset [of api "GET ''/api/unset''" unset _ Nil "Opaque ''boom''" "\<lambda>k. Complete"]
  by (simp add: reaches_api unset_def)

end
